theory Spec2Isabelle
  imports Complex_Main "HOL-Library.Word"
begin

section \<open>Text helpers of the Go standard library\<close>

text \<open>
  Go strings are byte strings; they are modelled as \<^typ>\<open>string\<close>. The case functions of
  package \<open>strings\<close> are modelled on ASCII letters: a byte outside \<open>a..z\<close> / \<open>A..Z\<close> is
  left as it is by \<open>ToUpper\<close> and compared exactly by \<open>EqualFold\<close>.
\<close>

definition toUpper_char :: "char \<Rightarrow> char" where
  "toUpper_char c =
     (let n = (of_char c :: nat) in if 97 \<le> n \<and> n \<le> 122 then char_of (n - 32) else c)"

definition toLower_char :: "char \<Rightarrow> char" where
  "toLower_char c =
     (let n = (of_char c :: nat) in if 65 \<le> n \<and> n \<le> 90 then char_of (n + 32) else c)"

definition ToUpper :: "string \<Rightarrow> string" where
  "ToUpper s = map toUpper_char s"

definition EqualFold :: "string \<Rightarrow> string \<Rightarrow> bool" where
  "EqualFold s t = (map toLower_char s = map toLower_char t)"

section \<open>module.go: the module type and its parser\<close>

text \<open>
  \<open>type ModuleType uint8\<close> with the constants \<open>InvalidModuleType = 0\<close> up to
  \<open>VolumeModuleType = 5\<close>.
\<close>

type_synonym ModuleType = "8 word"

definition InvalidModuleType :: ModuleType where "InvalidModuleType = 0"
definition ClientModuleType :: ModuleType where "ClientModuleType = 1"
definition ConfigModuleType :: ModuleType where "ConfigModuleType = 2"
definition LoggerModuleType :: ModuleType where "LoggerModuleType = 3"
definition ServerModuleType :: ModuleType where "ServerModuleType = 4"
definition VolumeModuleType :: ModuleType where "VolumeModuleType = 5"
definition maxModuleType :: ModuleType where "maxModuleType = VolumeModuleType"

definition String_mt :: "ModuleType \<Rightarrow> string" where
  "String_mt t =
     (if t = ClientModuleType then ''client''
      else if t = ConfigModuleType then ''config''
      else if t = LoggerModuleType then ''logger''
      else if t = ServerModuleType then ''server''
      else if t = VolumeModuleType then ''volume''
      else ''invalid'')"

text \<open>
  A floating-point number is one of the special values or a finite number; every finite
  \<open>float32\<close> and \<open>float64\<close> is a rational, so the finite case carries a \<^typ>\<open>rat\<close>.
\<close>

datatype float = Finite rat | NaN | PosInf | NegInf

text \<open>
  The dynamic values \<open>ParseModuleType\<close> switches on. \<open>uint\<close> and \<open>int\<close> are 64 bits wide.
  \<open>AStringer s\<close> is a value of any other type with a \<open>String()\<close> method (value receiver)
  returning \<open>s\<close>; \<open>APtr v\<close> is a non-nil pointer to a variable holding \<open>v\<close>; \<open>AOther\<close> is a
  value of a type the switch does not list.
\<close>

datatype arg =
    ANil
  | AModuleType ModuleType
  | AUint8 "8 word" | AUint16 "16 word" | AUint32 "32 word" | AUint "64 word" | AUint64 "64 word"
  | AInt8 "8 word" | AInt16 "16 word" | AInt32 "32 word" | AInt "64 word" | AInt64 "64 word"
  | AFloat32 float | AFloat64 float
  | AString string
  | AStringer string
  | APtr arg
  | AOther

text \<open>
  The error of \<open>fmt.Errorf("error: invalid module type: %v", v)\<close>, carrying the operand \<open>v\<close>
  that is rendered.
\<close>

datatype error = ErrInvalidModuleType arg

definition errUnknownModuleType :: "arg \<Rightarrow> ModuleType \<times> error option" where
  "errUnknownModuleType v =
     (case v of
        AModuleType mt \<Rightarrow> (0, Some (ErrInvalidModuleType (AUint8 mt)))
      | _ \<Rightarrow> (0, Some (ErrInvalidModuleType v)))"

definition isValidModuleType :: "ModuleType \<Rightarrow> ModuleType \<times> error option" where
  "isValidModuleType v =
     (if v < InvalidModuleType + 1 \<or> v > maxModuleType
      then errUnknownModuleType (AModuleType v) else (v, None))"

fun float_gt0_le255 :: "float \<Rightarrow> bool" where
  "float_gt0_le255 (Finite r) = (r > 0 \<and> r \<le> 255)"
| "float_gt0_le255 NaN = False"
| "float_gt0_le255 PosInf = False"
| "float_gt0_le255 NegInf = False"

text \<open>\<open>math.Mod(x, 1)\<close> of a finite \<open>x\<close>: what is left after truncating towards zero.\<close>

fun math_Mod1 :: "float \<Rightarrow> float" where
  "math_Mod1 (Finite r) = Finite (r - of_int (if r \<ge> 0 then \<lfloor>r\<rfloor> else \<lceil>r\<rceil>))"
| "math_Mod1 f = NaN"

text \<open>The conversion \<open>uint8(tv)\<close> of a float, used only on values in \<open>(0, 255]\<close>.\<close>

fun uint8_of_float :: "float \<Rightarrow> 8 word" where
  "uint8_of_float (Finite r) = word_of_int \<lfloor>r\<rfloor>"
| "uint8_of_float f = 0"

text \<open>
  The loop \<open>for mt := InvalidModuleType + 1; mt <= maxModuleType; mt++\<close> of the string case,
  over the remaining candidates.
\<close>

fun matchName :: "string \<Rightarrow> ModuleType list \<Rightarrow> ModuleType option" where
  "matchName tv [] = None"
| "matchName tv (mt # mts) = (if EqualFold tv (String_mt mt) then Some mt else matchName tv mts)"

definition moduleTypes :: "ModuleType list" where
  "moduleTypes = [1, 2, 3, 4, 5]"

fun rank :: "arg \<Rightarrow> nat" where
  "rank (APtr v) = Suc (Suc (rank v))"
| "rank (AUint w) = 1"
| "rank (AInt w) = 1"
| "rank (AStringer s) = 1"
| "rank v = 0"

function ParseModuleType :: "arg \<Rightarrow> ModuleType \<times> error option" where
  "ParseModuleType v =
     (case v of
        APtr (AModuleType tv) \<Rightarrow> (tv, None)
      | AModuleType tv \<Rightarrow> isValidModuleType tv
      | APtr (AUint8 tv) \<Rightarrow> ParseModuleType (AUint8 tv)
      | AUint8 tv \<Rightarrow> isValidModuleType tv
      | APtr (AUint16 tv) \<Rightarrow> ParseModuleType (AUint16 tv)
      | AUint16 tv \<Rightarrow>
          if tv \<le> 255 then isValidModuleType (ucast tv) else errUnknownModuleType v
      | APtr (AUint32 tv) \<Rightarrow> ParseModuleType (AUint32 tv)
      | AUint32 tv \<Rightarrow>
          if tv \<le> 255 then isValidModuleType (ucast tv) else errUnknownModuleType v
      | APtr (AUint tv) \<Rightarrow> ParseModuleType (AUint tv)
      | AUint tv \<Rightarrow> ParseModuleType (AUint64 tv)
      | APtr (AUint64 tv) \<Rightarrow> ParseModuleType (AUint64 tv)
      | AUint64 tv \<Rightarrow>
          if tv \<le> 255 then isValidModuleType (ucast tv) else errUnknownModuleType v
      | APtr (AInt8 tv) \<Rightarrow> ParseModuleType (AInt8 tv)
      | AInt8 tv \<Rightarrow>
          if sint tv > 0 \<and> sint tv \<le> 127 then isValidModuleType (ucast tv)
          else errUnknownModuleType v
      | APtr (AInt16 tv) \<Rightarrow> ParseModuleType (AInt16 tv)
      | AInt16 tv \<Rightarrow>
          if sint tv > 0 \<and> sint tv \<le> 255 then isValidModuleType (ucast tv)
          else errUnknownModuleType v
      | APtr (AInt32 tv) \<Rightarrow> ParseModuleType (AInt32 tv)
      | AInt32 tv \<Rightarrow>
          if sint tv > 0 \<and> sint tv \<le> 255 then isValidModuleType (ucast tv)
          else errUnknownModuleType v
      | APtr (AInt tv) \<Rightarrow> ParseModuleType (AInt tv)
      | AInt tv \<Rightarrow> ParseModuleType (AInt64 tv)
      | APtr (AInt64 tv) \<Rightarrow> ParseModuleType (AInt64 tv)
      | AInt64 tv \<Rightarrow>
          if sint tv > 0 \<and> sint tv \<le> 255 then isValidModuleType (ucast tv)
          else errUnknownModuleType v
      | APtr (AFloat32 tv) \<Rightarrow> ParseModuleType (AFloat32 tv)
      | AFloat32 tv \<Rightarrow>
          if float_gt0_le255 tv \<and> math_Mod1 tv = Finite 0
          then isValidModuleType (uint8_of_float tv) else errUnknownModuleType v
      | APtr (AFloat64 tv) \<Rightarrow> ParseModuleType (AFloat64 tv)
      | AFloat64 tv \<Rightarrow>
          if float_gt0_le255 tv \<and> math_Mod1 tv = Finite 0
          then isValidModuleType (uint8_of_float tv) else errUnknownModuleType v
      | AStringer s \<Rightarrow> ParseModuleType (AString s)
      | APtr (AStringer s) \<Rightarrow> ParseModuleType (AString s)
      | APtr (AString tv) \<Rightarrow> ParseModuleType (AString tv)
      | AString tv \<Rightarrow>
          (case matchName tv moduleTypes of
             Some mt \<Rightarrow> (mt, None)
           | None \<Rightarrow> errUnknownModuleType v)
      | _ \<Rightarrow> errUnknownModuleType v)"
  by pat_completeness auto
termination
  by (relation "measure rank") auto

declare ParseModuleType.simps [simp del]

section \<open>config.go: values, maps and the environment\<close>

text \<open>
  A \<open>Config\<close> is a Go map, and a Go map is a reference to a map object that every holder
  of the reference shares. Map objects therefore live in a store, addressed by \<^typ>\<open>nat\<close>;
  a map object is the list of its entries in the order one enumeration visits them, with
  distinct keys. The values of type \<open>interface{}\<close> that a configuration holds:

  \<^item> \<open>VNil\<close> the nil interface; \<open>VBool\<close>, \<open>VInt\<close> (the integer kinds), \<open>VFloat\<close>
    (\<open>float64\<close>, what the JSON decoder makes of a number), \<open>VStr\<close>;
  \<^item> \<open>VSlice\<close> a slice or array; \<open>VMap a\<close> a \<open>map[string]interface{}\<close> and \<open>VConfig a\<close>
    a \<open>Config\<close>, both references to the map object at \<open>a\<close>;
  \<^item> \<open>VStruct\<close> a struct value, its exported fields in declaration order, a field
    holding \<open>VStr\<close> being a field of type \<open>string\<close>;
  \<^item> \<open>VPtr v\<close> a non-nil pointer to \<open>v\<close>; \<open>VFunc T\<close> a non-nil function or channel of
    type \<open>T\<close>;
  \<^item> \<open>VStringer s\<close> and \<open>VTextMarshaler r\<close>: a value of a struct type without fields
    whose method \<open>String()\<close> returns \<open>s\<close>, respectively whose \<open>MarshalText()\<close> returns
    the bytes \<open>Inr b\<close> or fails with the message \<open>Inl e\<close>.

  A nil map, slice, pointer or function wrapped in an interface is not among these values,
  and neither is a struct with a field that is not exported.
\<close>

definition configScopeKey :: string where "configScopeKey = ''@scope@''"
definition configParentKey :: string where "configParentKey = ''@parent@''"

type_synonym addr = nat

datatype val =
    VNil
  | VBool bool
  | VInt int
  | VFloat float
  | VStr string
  | VSlice "val list"
  | VMap addr
  | VConfig addr
  | VStruct "(string \<times> val) list"
  | VPtr val
  | VFunc string
  | VStringer string
  | VTextMarshaler "string + string"

type_synonym gomap = "(string \<times> val) list"
type_synonym store = "addr \<Rightarrow> gomap"

text \<open>
  Two functions of the Go library are parameters of the model: \<open>json.Marshal\<close> on a value
  (in a store), returning the bytes \<open>Inr b\<close> or failing with the message \<open>Inl e\<close>, and the
  \<open>%v\<close> rendering of a \<open>float64\<close>.
\<close>

record golib =
  json_Marshal :: "store \<Rightarrow> val \<Rightarrow> string + string"
  fmt_float :: "float \<Rightarrow> string"

type_synonym environ = "string \<Rightarrow> string option"

definition Getenv :: "environ \<Rightarrow> string \<Rightarrow> string" where
  "Getenv env k = (case env k of None \<Rightarrow> '''' | Some v \<Rightarrow> v)"

definition getEnvVarName :: "string \<Rightarrow> string" where
  "getEnvVarName path =
     ''LSX_'' @ map (\<lambda>c. if c = CHR ''.'' then CHR ''_'' else c) (ToUpper path)"

text \<open>\<open>strings.Split(path, ".")\<close>: one token more than there are dots.\<close>

fun Split_dot :: "string \<Rightarrow> string list" where
  "Split_dot [] = [[]]"
| "Split_dot (c # cs) =
     (if c = CHR ''.'' then [] # Split_dot cs
      else (case Split_dot cs of t # ts \<Rightarrow> (c # t) # ts | [] \<Rightarrow> [[c]]))"

text \<open>The map assignment \<open>m[k] = v\<close>.\<close>

fun map_assign :: "gomap \<Rightarrow> string \<Rightarrow> val \<Rightarrow> gomap" where
  "map_assign [] k v = [(k, v)]"
| "map_assign ((k', v') # es) k v =
     (if k' = k then (k, v) # es else (k', v') # map_assign es k v)"

section \<open>config.go: stringification and the custom marshaller\<close>

fun digits :: "nat \<Rightarrow> string" where
  "digits n =
     (if n < 10 then [char_of (48 + n)] else digits (n div 10) @ [char_of (48 + n mod 10)])"

declare digits.simps [simp del]

definition show_int :: "int \<Rightarrow> string" where
  "show_int i = (if i < 0 then ''-'' @ digits (nat (- i)) else digits (nat i))"

text \<open>
  \<open>fmt.Sprintf("%d", x)\<close> for \<open>x\<close> of a kind from \<open>Bool\<close> to \<open>Complex128\<close>: the verb
  \<open>%d\<close> renders an integer in base 10 and is a bad verb for every other type, which
  \<open>fmt\<close> reports in the result as \<open>%!d(type=value)\<close>.
\<close>

fun Sprintf_d :: "golib \<Rightarrow> val \<Rightarrow> string" where
  "Sprintf_d L (VInt i) = show_int i"
| "Sprintf_d L (VBool b) = ''%!d(bool='' @ (if b then ''true'' else ''false'') @ '')''"
| "Sprintf_d L (VFloat f) = ''%!d(float64='' @ fmt_float L f @ '')''"
| "Sprintf_d L v = ''''"

fun derefValue :: "val \<Rightarrow> val" where
  "derefValue (VPtr v) = derefValue v"
| "derefValue v = v"

text \<open>
  The loop of \<open>MarshalJSON\<close> over the entries, \<open>cx\<close> counting the entries written and
  \<open>cl\<close> the number expected; the result is the text between the braces.
\<close>

fun marshalEntries :: "golib \<Rightarrow> store \<Rightarrow> int \<Rightarrow> int \<Rightarrow> gomap \<Rightarrow> string + string" where
  "marshalEntries L st cx cl [] = Inr ''''"
| "marshalEntries L st cx cl ((k, v) # es) =
     (if k = configScopeKey \<or> k = configParentKey then marshalEntries L st cx cl es
      else (case json_Marshal L st v of
              Inl err \<Rightarrow> Inl err
            | Inr buf \<Rightarrow>
                (case marshalEntries L st (cx + 1) cl es of
                   Inl err \<Rightarrow> Inl err
                 | Inr rest \<Rightarrow>
                     Inr ([CHR 0x22] @ k @ [CHR 0x22] @ '':'' @ buf
                          @ (if cx < cl - 1 then '','' else '''') @ rest))))"

definition MarshalJSON :: "golib \<Rightarrow> store \<Rightarrow> addr \<Rightarrow> string + string" where
  "MarshalJSON L st c =
     (let cl = int (length (st c));
          cl = (case map_of (st c) configScopeKey of Some (VStr s) \<Rightarrow> cl - 1 | _ \<Rightarrow> cl);
          cl = (case map_of (st c) configParentKey of Some (VConfig p) \<Rightarrow> cl - 1 | _ \<Rightarrow> cl)
      in case marshalEntries L st 0 cl (st c) of
           Inl err \<Rightarrow> Inl err
         | Inr body \<Rightarrow> Inr (''{'' @ body @ ''}''))"

text \<open>
  \<open>Len\<close> counts the entries less the reserved keys that are present.
\<close>

definition Len :: "store \<Rightarrow> addr \<Rightarrow> int" where
  "Len st c =
     (let l = int (length (st c));
          l = (if map_of (st c) configScopeKey \<noteq> None then l - 1 else l);
          l = (if map_of (st c) configParentKey \<noteq> None then l - 1 else l)
      in l)"

text \<open>
  The type switch at the head of \<open>toStringWithOpts\<close>: the text of a string-related value,
  \<open>None\<close> when no case applies. The method set of a pointer type holds the methods of its
  element type, so a pointer to a value with a capability has the capability too.
\<close>

definition bytes_or_error :: "string + string \<Rightarrow> string" where
  "bytes_or_error r = (case r of Inl err \<Rightarrow> err | Inr buf \<Rightarrow> buf)"

fun stringRelated :: "golib \<Rightarrow> store \<Rightarrow> val \<Rightarrow> string option" where
  "stringRelated L st (VStr vt) = Some vt"
| "stringRelated L st (VPtr (VStr vt)) = Some vt"
| "stringRelated L st (VStringer s) = Some s"
| "stringRelated L st (VPtr (VStringer s)) = Some s"
| "stringRelated L st (VConfig a) = Some (bytes_or_error (MarshalJSON L st a))"
| "stringRelated L st (VPtr (VConfig a)) = Some (bytes_or_error (MarshalJSON L st a))"
| "stringRelated L st (VTextMarshaler r) = Some (bytes_or_error r)"
| "stringRelated L st (VPtr (VTextMarshaler r)) = Some (bytes_or_error r)"
| "stringRelated L st v = None"

text \<open>The part of \<open>toStringWithOpts\<close> that goes by the kind of the dereferenced value.\<close>

fun byKind :: "golib \<Rightarrow> store \<Rightarrow> val \<Rightarrow> string" where
  "byKind L st (VStr s) = s"
| "byKind L st (VBool b) = Sprintf_d L (VBool b)"
| "byKind L st (VInt i) = Sprintf_d L (VInt i)"
| "byKind L st (VFloat f) = Sprintf_d L (VFloat f)"
| "byKind L st (VFunc T) = T"
| "byKind L st VNil = ''''"
| "byKind L st (VPtr v) = ''''"
| "byKind L st v = bytes_or_error (json_Marshal L st v)"

definition toStringWithOpts :: "golib \<Rightarrow> store \<Rightarrow> val \<Rightarrow> bool \<Rightarrow> string" where
  "toStringWithOpts L st v deep =
     (case stringRelated L st v of
        Some s \<Rightarrow> s
      | None \<Rightarrow> if \<not> deep then '''' else byKind L st (derefValue v))"

definition toString :: "golib \<Rightarrow> store \<Rightarrow> val \<Rightarrow> string" where
  "toString L st v = toStringWithOpts L st v True"

section \<open>config.go: path resolution\<close>

text \<open>
  The \<open>reflect.Map\<close> case of the cursor: the value of the first key, in enumeration
  order, whose text equals the token up to case; nil when there is none.
\<close>

fun mapStep :: "golib \<Rightarrow> store \<Rightarrow> string \<Rightarrow> gomap \<Rightarrow> val" where
  "mapStep L st tok [] = VNil"
| "mapStep L st tok ((mapKey, v) # es) =
     (if EqualFold tok (toString L st (VStr mapKey)) then v else mapStep L st tok es)"

text \<open>The \<open>reflect.Struct\<close> case of the cursor: the value of the first field named as the token.\<close>

fun structStep :: "string \<Rightarrow> (string \<times> val) list \<Rightarrow> val" where
  "structStep tok [] = VNil"
| "structStep tok ((fldName, fldVal) # fs) =
     (if EqualFold tok fldName then fldVal else structStep tok fs)"

text \<open>
  A map element of a sequence: the loop over its keys, which ends at the first key named
  \<open>name\<close> whose value, as text, equals the token; \<open>True\<close> when the loop ended that way.
\<close>

fun nameKeyLoop :: "golib \<Rightarrow> store \<Rightarrow> string \<Rightarrow> gomap \<Rightarrow> bool" where
  "nameKeyLoop L st tok [] = False"
| "nameKeyLoop L st tok ((mapKey, mapVal) # es) =
     (if \<not> EqualFold ''name'' (toString L st (VStr mapKey)) then nameKeyLoop L st tok es
      else if EqualFold tok (toStringWithOpts L st (derefValue mapVal) False) then True
      else nameKeyLoop L st tok es)"

text \<open>
  A struct element \<open>el\<close> of a sequence: the loop over its fields, which ends at the first
  field that assigns \<open>next\<close>; \<open>None\<close> when no field does.
\<close>

fun fieldLoop :: "string \<Rightarrow> val \<Rightarrow> (string \<times> val) list \<Rightarrow> val option" where
  "fieldLoop tok el [] = None"
| "fieldLoop tok el ((fldName, fldVal) # fs) =
     (if EqualFold ''name'' fldName then
        (case fldVal of
           VStr szFldVal \<Rightarrow> if EqualFold tok szFldVal then Some el else fieldLoop tok el fs
         | _ \<Rightarrow> fieldLoop tok el fs)
      else if EqualFold tok fldName then Some fldVal
      else fieldLoop tok el fs)"

text \<open>One element of the sequence, already dereferenced, and the value of \<open>next\<close> after it.\<close>

fun elemStep :: "golib \<Rightarrow> store \<Rightarrow> string \<Rightarrow> val \<Rightarrow> val \<Rightarrow> val" where
  "elemStep L st tok (VMap a) next = (if nameKeyLoop L st tok (st a) then VMap a else next)"
| "elemStep L st tok (VConfig a) next = (if nameKeyLoop L st tok (st a) then VConfig a else next)"
| "elemStep L st tok (VStruct fs) next =
     (case fieldLoop tok (VStruct fs) fs of Some v \<Rightarrow> v | None \<Rightarrow> next)"
| "elemStep L st tok curValEl next = next"

text \<open>
  The \<open>reflect.Array, reflect.Slice\<close> case of the cursor: the loop over all elements; it
  does not stop at an element that assigned \<open>next\<close>.
\<close>

fun sliceLoop :: "golib \<Rightarrow> store \<Rightarrow> string \<Rightarrow> val list \<Rightarrow> val \<Rightarrow> val" where
  "sliceLoop L st tok [] next = next"
| "sliceLoop L st tok (x # xs) next =
     sliceLoop L st tok xs (elemStep L st tok (derefValue x) next)"

text \<open>The switch on the kind of the dereferenced cursor, giving \<open>next\<close>.\<close>

fun step :: "golib \<Rightarrow> store \<Rightarrow> string \<Rightarrow> val \<Rightarrow> val" where
  "step L st tok (VMap a) = mapStep L st tok (st a)"
| "step L st tok (VConfig a) = mapStep L st tok (st a)"
| "step L st tok (VSlice xs) = sliceLoop L st tok xs VNil"
| "step L st tok (VStruct fs) = structStep tok fs"
| "step L st tok curVal = VNil"

text \<open>The loop over the path tokens, from the cursor \<open>cur\<close>.\<close>

fun traverse :: "golib \<Rightarrow> store \<Rightarrow> val \<Rightarrow> string list \<Rightarrow> val" where
  "traverse L st cur [] = cur"
| "traverse L st cur (tok # toks) =
     (let next = step L st tok (derefValue cur)
      in if next = VNil then VNil else traverse L st next toks)"

definition Parent :: "store \<Rightarrow> addr \<Rightarrow> addr option" where
  "Parent st c =
     (case map_of (st c) configParentKey of
        Some (VConfig tpmap) \<Rightarrow> Some tpmap
      | Some (VMap tpmap) \<Rightarrow> Some tpmap
      | _ \<Rightarrow> None)"

text \<open>
  \<open>get\<close> calls itself on the parent, and nothing bounds the chain of parents in a store;
  \<open>None\<close> is a call that does not return.
\<close>

partial_function (option)
  get :: "golib \<Rightarrow> store \<Rightarrow> environ \<Rightarrow> addr \<Rightarrow> string \<Rightarrow> bool \<Rightarrow> val option" where
  "get L st env c path askParent =
     (if Getenv env (getEnvVarName path) \<noteq> '''' then Some (VStr (Getenv env (getEnvVarName path)))
      else if traverse L st (VConfig c) (Split_dot path) \<noteq> VNil
        then Some (traverse L st (VConfig c) (Split_dot path))
      else if \<not> askParent then Some VNil
      else (case Parent st c of
              Some parent \<Rightarrow> get L st env parent path askParent
            | None \<Rightarrow> Some VNil))"

declare get.simps [code]

definition Get :: "golib \<Rightarrow> store \<Rightarrow> environ \<Rightarrow> addr \<Rightarrow> string \<Rightarrow> val option" where
  "Get L st env c path = get L st env c path True"

definition GetStr :: "golib \<Rightarrow> store \<Rightarrow> environ \<Rightarrow> addr \<Rightarrow> string \<Rightarrow> string option" where
  "GetStr L st env c path = map_option (toString L st) (Get L st env c path)"

text \<open>
  \<open>Scope\<close> returns the scoped \<open>Config\<close> (\<open>None\<close> for the nil \<open>Config\<close>) and the store it
  leaves: \<open>Config(m)\<close> converts the reference, so the two assignments write into the map
  object that \<open>get\<close> found.
\<close>

definition Scope ::
  "golib \<Rightarrow> store \<Rightarrow> environ \<Rightarrow> addr \<Rightarrow> string \<Rightarrow> (addr option \<times> store) option" where
  "Scope L st env c scope =
     (case get L st env c scope False of
        None \<Rightarrow> None
      | Some (VMap m) \<Rightarrow>
          Some (Some m,
                st(m := map_assign (map_assign (st m) configParentKey (VConfig c))
                                   configScopeKey (VStr scope)))
      | Some v \<Rightarrow> Some (None, st))"

section \<open>The chain of ancestors\<close>



section \<open>The matching policy inside a sequence, field by field\<close>




section \<open>Concrete configurations\<close>

text \<open>
  An instance of the library parameters for the examples: Go's \<open>json.Marshal\<close> on nil,
  booleans and integers, which is all the examples marshal (any other value is reported
  as an error here).
\<close>

definition exampleLib :: golib where
  "exampleLib =
     \<lparr> json_Marshal = (\<lambda>st v. case v of
                           VNil \<Rightarrow> Inr ''null''
                         | VBool b \<Rightarrow> Inr (if b then ''true'' else ''false'')
                         | VInt i \<Rightarrow> Inr (show_int i)
                         | _ \<Rightarrow> Inl ''json: outside the example''),
       fmt_float = (\<lambda>f. '''') \<rparr>"

definition noEnv :: environ where
  "noEnv = (\<lambda>k. None)"



text \<open>
  The shape of \<open>config_example.json\<close>: the root at address 0 with \<open>logging\<close> (address 1)
  and the sequence \<open>services\<close> of one service \<open>svc00\<close> (address 2) that has a \<open>logging\<close>
  of its own (address 3). \<open>scopedStore\<close> is that store after the root was scoped to
  \<open>services.svc00\<close>.
\<close>

definition exampleStore :: store where
  "exampleStore =
     (\<lambda>a. if a = 0 then [(''logging'', VMap 1), (''services'', VSlice [VMap 2])]
          else if a = 1 then [(''level'', VStr ''debug''), (''requests'', VBool True)]
          else if a = 2 then [(''name'', VStr ''svc00''), (''logging'', VMap 3)]
          else if a = 3 then [(''level'', VStr ''info'')]
          else [])"

definition scopedStore :: store where
  "scopedStore =
     (\<lambda>a. if a = 2
          then [(''name'', VStr ''svc00''), (''logging'', VMap 3),
                (''@parent@'', VConfig 0), (''@scope@'', VStr ''services.svc00'')]
          else exampleStore a)"


text \<open>A tree whose one key is the three characters \<open>a\<close>, double quote, \<open>b\<close>.\<close>

definition quoteStore :: store where
  "quoteStore = (\<lambda>a. if a = 0 then [(''a'' @ [CHR 0x22] @ ''b'', VInt 1)] else [])"

section \<open>The object the marshaller writes, and reading it back\<close>




text \<open>
  How a JSON decoder reads an object written without white space into a map, for keys
  written without escapes. The decoder of one value is a parameter \<open>dv\<close>: it reads a
  value at the front of the text and returns it with the rest of the text. \<open>scanKey\<close>
  reads a key up to its closing quote; \<open>decodeMembers\<close> reads the members up to the
  closing brace, which must end the text, in the order of the text.
\<close>

fun scanKey :: "string \<Rightarrow> (string \<times> string) option" where
  "scanKey [] = None"
| "scanKey (ch # cs) =
     (if ch = CHR 0x22 then Some ([], cs)
      else if ch = CHR 0x5C \<or> (of_char ch :: nat) < 32 then None
      else (case scanKey cs of None \<Rightarrow> None | Some (k, rest) \<Rightarrow> Some (ch # k, rest)))"

fun decodeMembers ::
  "nat \<Rightarrow> (string \<Rightarrow> (val \<times> string) option) \<Rightarrow> string \<Rightarrow> gomap option" where
  "decodeMembers 0 dv s = None"
| "decodeMembers (Suc n) dv s =
     (case s of
        [] \<Rightarrow> None
      | ch # cs \<Rightarrow>
          if ch \<noteq> CHR 0x22 then None
          else (case scanKey cs of
                  None \<Rightarrow> None
                | Some (k, r1) \<Rightarrow>
                    (case r1 of
                       [] \<Rightarrow> None
                     | c1 # r2 \<Rightarrow>
                         if c1 \<noteq> CHR '':'' then None
                         else (case dv r2 of
                                 None \<Rightarrow> None
                               | Some (v, r3) \<Rightarrow>
                                   (case r3 of
                                      [] \<Rightarrow> None
                                    | c3 # r4 \<Rightarrow>
                                        if c3 = CHR ''}'' then (if r4 = [] then Some [(k, v)] else None)
                                        else if c3 = CHR '','' then
                                          (case decodeMembers n dv r4 of
                                             None \<Rightarrow> None
                                           | Some es \<Rightarrow> Some ((k, v) # es))
                                        else None)))))"

text \<open>
  An object has at most as many members as its text has characters, so the length of
  the text is fuel enough.
\<close>

definition decodeObject :: "(string \<Rightarrow> (val \<times> string) option) \<Rightarrow> string \<Rightarrow> gomap option" where
  "decodeObject dv s =
     (case s of
        [] \<Rightarrow> None
      | ch # cs \<Rightarrow>
          if ch \<noteq> CHR ''{'' then None
          else if cs = ''}'' then Some []
          else decodeMembers (length cs) dv cs)"


text \<open>
  A decoder of the values the examples use: \<open>null\<close>, \<open>true\<close>, \<open>false\<close> and unsigned
  integers, a number becoming a \<open>float64\<close> as in Go. \<open>exampleDecoded\<close> is what it makes of
  the text \<open>exampleLib\<close> renders a value as.
\<close>

definition isDigit :: "char \<Rightarrow> bool" where
  "isDigit ch = (48 \<le> (of_char ch :: nat) \<and> (of_char ch :: nat) \<le> 57)"

fun natOfDigits :: "nat \<Rightarrow> string \<Rightarrow> nat" where
  "natOfDigits acc [] = acc"
| "natOfDigits acc (ch # cs) = natOfDigits (10 * acc + (of_char ch - 48)) cs"

fun exampleDecode :: "string \<Rightarrow> (val \<times> string) option" where
  "exampleDecode s =
     (if take 4 s = ''null'' then Some (VNil, drop 4 s)
      else if take 4 s = ''true'' then Some (VBool True, drop 4 s)
      else if take 5 s = ''false'' then Some (VBool False, drop 5 s)
      else if takeWhile isDigit s = [] then None
      else Some (VFloat (Finite (of_nat (natOfDigits 0 (takeWhile isDigit s)))),
                 dropWhile isDigit s))"



section \<open>Basic facts\<close>

lemmas mt_defs = InvalidModuleType_def ClientModuleType_def ConfigModuleType_def
  LoggerModuleType_def ServerModuleType_def VolumeModuleType_def maxModuleType_def

lemma toString_VStr [simp]: "toString L st (VStr k) = k"
  by (simp add: toString_def toStringWithOpts_def)



lemma get_local:
  "get L st env c path False =
     Some (if Getenv env (getEnvVarName path) \<noteq> ''''
           then VStr (Getenv env (getEnvVarName path))
           else traverse L st (VConfig c) (Split_dot path))"
  by (subst get.simps) simp





lemma map_of_map_assign: "map_of (map_assign m k v) = (map_of m)(k \<mapsto> v)"
  by (induction m k v rule: map_assign.induct) (auto simp: fun_eq_iff)

lemma keys_neq: "configParentKey \<noteq> configScopeKey"
  by (simp add: configParentKey_def configScopeKey_def)

section \<open>The environment override\<close>



section \<open>Fallback to the parent\<close>



section \<open>Scoping\<close>



text \<open>
  C4, as the specification states it, fails where the path leads to a value of the type
  \<open>Config\<close> itself. Such a value is an associative container, the very kind a tree is,
  but \<open>Scope\<close> asserts the type \<open>map[string]interface{}\<close> and nothing else: in the
  tree scoped to \<open>services.svc00\<close> the path \<open>@parent@\<close> leads to the root, a
  \<open>Config\<close>, and \<open>Scope\<close> returns the nil tree instead of wrapping it.
\<close>

theorem Scope_spec_counterexample:
  "traverse exampleLib scopedStore (VConfig 2) (Split_dot ''@parent@'') = VConfig 0
   \<and> scopedStore 0 = [(''logging'', VMap 1), (''services'', VSlice [VMap 2])]
   \<and> Scope exampleLib scopedStore noEnv 2 ''@parent@'' = Some (None, scopedStore)"
proof -
  have e: "Getenv noEnv (getEnvVarName ''@parent@'') = ''''"
    by code_simp
  have t: "traverse exampleLib scopedStore (VConfig 2) (Split_dot ''@parent@'') = VConfig 0"
    by code_simp
  have r: "scopedStore 0 = [(''logging'', VMap 1), (''services'', VSlice [VMap 2])]"
    by code_simp
  have "Scope exampleLib scopedStore noEnv 2 ''@parent@'' = Some (None, scopedStore)"
    by (simp only: Scope_def get_local e t) simp
  with t r show ?thesis
    by blast
qed

text \<open>
  C4, amended. For every tree and every path, \<open>Scope\<close> returns, and what it resolves is
  the override or else the walk of the tree itself, never a parent's. When that value is
  not a plain map, a \<open>map[string]interface{}\<close> (absence is not one, and neither is a value
  of the type \<open>Config\<close>), the result is the nil tree and the store is unchanged. When it is
  the plain map at \<open>m\<close>, the result is the tree at \<open>m\<close>, in which the reserved parent key
  holds the tree \<open>Scope\<close> was called on and the reserved scope key holds the path; the
  other keys of \<open>m\<close> and the other map objects are as before.
\<close>

theorem Scope_spec:
  "(let resolved = (if Getenv env (getEnvVarName path) \<noteq> ''''
                    then VStr (Getenv env (getEnvVarName path))
                    else traverse L st (VConfig c) (Split_dot path))
    in get L st env c path False = Some resolved
     \<and> ((\<forall>m. resolved \<noteq> VMap m) \<longrightarrow> Scope L st env c path = Some (None, st))
     \<and> (\<forall>m. resolved = VMap m \<longrightarrow>
            (\<exists>st'. Scope L st env c path = Some (Some m, st')
               \<and> map_of (st' m) configParentKey = Some (VConfig c)
               \<and> map_of (st' m) configScopeKey = Some (VStr path)
               \<and> (\<forall>k. k \<noteq> configParentKey \<and> k \<noteq> configScopeKey \<longrightarrow>
                      map_of (st' m) k = map_of (st m) k)
               \<and> (\<forall>a. a \<noteq> m \<longrightarrow> st' a = st a))))"
proof -
  define resolved where
    "resolved = (if Getenv env (getEnvVarName path) \<noteq> ''''
                 then VStr (Getenv env (getEnvVarName path))
                 else traverse L st (VConfig c) (Split_dot path))"
  have g: "get L st env c path False = Some resolved"
    by (simp add: resolved_def get_local)
  have a: "Scope L st env c path = Some (None, st)" if "\<forall>m. resolved \<noteq> VMap m"
    using that g by (cases resolved) (simp_all add: Scope_def)
  have b: "\<exists>st'. Scope L st env c path = Some (Some m, st')
               \<and> map_of (st' m) configParentKey = Some (VConfig c)
               \<and> map_of (st' m) configScopeKey = Some (VStr path)
               \<and> (\<forall>k. k \<noteq> configParentKey \<and> k \<noteq> configScopeKey \<longrightarrow>
                      map_of (st' m) k = map_of (st m) k)
               \<and> (\<forall>a. a \<noteq> m \<longrightarrow> st' a = st a)" if "resolved = VMap m" for m
    using that g keys_neq by (simp add: Scope_def map_of_map_assign)
  from g a b show ?thesis
    unfolding Let_def resolved_def [symmetric] by blast
qed

theorem Scope_spec_witness:
  "traverse exampleLib exampleStore (VConfig 0) (Split_dot ''services.svc00'') = VMap 2
   \<and> (\<exists>st'. Scope exampleLib exampleStore noEnv 0 ''services.svc00'' = Some (Some 2, st')
         \<and> map_of (st' 2) configParentKey = Some (VConfig 0)
         \<and> map_of (st' 2) configScopeKey = Some (VStr ''services.svc00''))
   \<and> traverse exampleLib exampleStore (VConfig 0) (Split_dot ''services.svc01'') = VNil
   \<and> Scope exampleLib exampleStore noEnv 0 ''services.svc01'' = Some (None, exampleStore)"
proof -
  have e0: "Getenv noEnv (getEnvVarName ''services.svc00'') = ''''"
    by code_simp
  have e1: "Getenv noEnv (getEnvVarName ''services.svc01'') = ''''"
    by code_simp
  have t0: "traverse exampleLib exampleStore (VConfig 0) (Split_dot ''services.svc00'') = VMap 2"
    by code_simp
  have t1: "traverse exampleLib exampleStore (VConfig 0) (Split_dot ''services.svc01'') = VNil"
    by code_simp
  from Scope_spec [of noEnv "''services.svc00''" exampleLib exampleStore 0]
  have "\<exists>st'. Scope exampleLib exampleStore noEnv 0 ''services.svc00'' = Some (Some 2, st')
         \<and> map_of (st' 2) configParentKey = Some (VConfig 0)
         \<and> map_of (st' 2) configScopeKey = Some (VStr ''services.svc00'')"
    unfolding Let_def e0 t0 by (simp only: if_False simp_thms) blast
  moreover from Scope_spec [of noEnv "''services.svc01''" exampleLib exampleStore 0]
  have "Scope exampleLib exampleStore noEnv 0 ''services.svc01'' = Some (None, exampleStore)"
    unfolding Let_def e1 t1 by (simp only: if_False simp_thms val.distinct) 
  ultimately show ?thesis
    using t0 t1 by blast
qed

section \<open>Matching inside a sequence\<close>








section \<open>Parsing a module type\<close>

lemma matchName_names:
  "matchName ''client'' moduleTypes = Some 1"
  "matchName ''config'' moduleTypes = Some 2"
  "matchName ''logger'' moduleTypes = Some 3"
  "matchName ''server'' moduleTypes = Some 4"
  "matchName ''volume'' moduleTypes = Some 5"
  "matchName ''CLIENT'' moduleTypes = Some 1"
  "matchName ''CONFIG'' moduleTypes = Some 2"
  "matchName ''LOGGER'' moduleTypes = Some 3"
  "matchName ''SERVER'' moduleTypes = Some 4"
  "matchName ''VOLUME'' moduleTypes = Some 5"
  by code_simp+

lemma ToUpper_names:
  "ToUpper ''client'' = ''CLIENT''"
  "ToUpper ''config'' = ''CONFIG''"
  "ToUpper ''logger'' = ''LOGGER''"
  "ToUpper ''server'' = ''SERVER''"
  "ToUpper ''volume'' = ''VOLUME''"
  by code_simp+

lemma ordinal_cases: "1 \<le> n \<Longrightarrow> n \<le> 5 \<Longrightarrow> n = 1 \<or> n = 2 \<or> n = 3 \<or> n = 4 \<or> n = (5::nat)"
  by arith

lemma parse_text:
  assumes "1 \<le> n" and "n \<le> (5::nat)"
  shows "ParseModuleType (AString (String_mt (of_nat n))) = (of_nat n, None)"
    and "ParseModuleType (AString (ToUpper (String_mt (of_nat n)))) = (of_nat n, None)"
  using ordinal_cases [OF assms]
  by (auto simp add: ParseModuleType.simps String_mt_def mt_defs matchName_names ToUpper_names)

lemma parse_unsigned:
  assumes "1 \<le> n" and "n \<le> (5::nat)"
  shows "ParseModuleType (AUint8 (of_nat n)) = (of_nat n, None)"
    and "ParseModuleType (AUint16 (of_nat n)) = (of_nat n, None)"
    and "ParseModuleType (AUint32 (of_nat n)) = (of_nat n, None)"
    and "ParseModuleType (AUint (of_nat n)) = (of_nat n, None)"
    and "ParseModuleType (AUint64 (of_nat n)) = (of_nat n, None)"
  using ordinal_cases [OF assms]
  by (auto simp add: ParseModuleType.simps isValidModuleType_def mt_defs)

lemma parse_signed:
  assumes "1 \<le> n" and "n \<le> (5::nat)"
  shows "ParseModuleType (AInt8 (of_nat n)) = (of_nat n, None)"
    and "ParseModuleType (AInt16 (of_nat n)) = (of_nat n, None)"
    and "ParseModuleType (AInt32 (of_nat n)) = (of_nat n, None)"
    and "ParseModuleType (AInt (of_nat n)) = (of_nat n, None)"
    and "ParseModuleType (AInt64 (of_nat n)) = (of_nat n, None)"
  using ordinal_cases [OF assms]
  by (auto simp add: ParseModuleType.simps isValidModuleType_def mt_defs)

lemma parse_float:
  assumes "1 \<le> n" and "n \<le> (5::nat)"
  shows "ParseModuleType (AFloat32 (Finite (of_nat n))) = (of_nat n, None)"
    and "ParseModuleType (AFloat64 (Finite (of_nat n))) = (of_nat n, None)"
  using ordinal_cases [OF assms]
  by (auto simp add: ParseModuleType.simps isValidModuleType_def mt_defs)

text \<open>
  C7. For every ordinal \<open>n\<close> from 1 to 5, \<open>ParseModuleType\<close> succeeds with the module type
  \<open>n\<close> on the canonical name of \<open>n\<close>, on that name in upper case, on \<open>n\<close> as a value of
  each unsigned and each signed integer type, and on \<open>n\<close> as a \<open>float32\<close> and as a
  \<open>float64\<close>.
\<close>

theorem ParseModuleType_valid:
  assumes "1 \<le> n" and "n \<le> (5::nat)"
  shows "ParseModuleType (AString (String_mt (of_nat n))) = (of_nat n, None)
       \<and> ParseModuleType (AString (ToUpper (String_mt (of_nat n)))) = (of_nat n, None)
       \<and> ParseModuleType (AUint8 (of_nat n)) = (of_nat n, None)
       \<and> ParseModuleType (AUint16 (of_nat n)) = (of_nat n, None)
       \<and> ParseModuleType (AUint32 (of_nat n)) = (of_nat n, None)
       \<and> ParseModuleType (AUint (of_nat n)) = (of_nat n, None)
       \<and> ParseModuleType (AUint64 (of_nat n)) = (of_nat n, None)
       \<and> ParseModuleType (AInt8 (of_nat n)) = (of_nat n, None)
       \<and> ParseModuleType (AInt16 (of_nat n)) = (of_nat n, None)
       \<and> ParseModuleType (AInt32 (of_nat n)) = (of_nat n, None)
       \<and> ParseModuleType (AInt (of_nat n)) = (of_nat n, None)
       \<and> ParseModuleType (AInt64 (of_nat n)) = (of_nat n, None)
       \<and> ParseModuleType (AFloat32 (Finite (of_nat n))) = (of_nat n, None)
       \<and> ParseModuleType (AFloat64 (Finite (of_nat n))) = (of_nat n, None)"
  using parse_text [OF assms] parse_unsigned [OF assms] parse_signed [OF assms]
    parse_float [OF assms]
  by (simp only: simp_thms)

theorem ParseModuleType_valid_witness:
  "(1::nat) \<le> 4 \<and> (4::nat) \<le> 5
   \<and> String_mt 4 = ''server''
   \<and> ParseModuleType (AString ''server'') = (ServerModuleType, None)
   \<and> ParseModuleType (AString ''SERVER'') = (ServerModuleType, None)
   \<and> ParseModuleType (AUint16 4) = (ServerModuleType, None)
   \<and> ParseModuleType (AInt 4) = (ServerModuleType, None)
   \<and> ParseModuleType (AFloat64 (Finite 4)) = (ServerModuleType, None)"
proof -
  have a: "(1::nat) \<le> 4" and b: "(4::nat) \<le> 5"
    by simp_all
  have s: "String_mt 4 = ''server''" and u: "ToUpper ''server'' = ''SERVER''"
    by code_simp+
  from ParseModuleType_valid [OF a b] s u show ?thesis
    by (simp add: ServerModuleType_def)
qed

text \<open>
  C8 (code bug). A pointer to a module type outside 1..5 is returned as it is, with no
  error: the case \<open>*ModuleType\<close> returns \<open>*tv, nil\<close>, where every other pointer case
  parses the value it points to. The same value handed over directly, or as a \<open>uint8\<close>
  behind a pointer, is rejected with the error that renders its ordinal.
\<close>

theorem ParseModuleType_pointer_unchecked:
  "ParseModuleType (APtr (AModuleType 9)) = (9, None)
   \<and> ParseModuleType (APtr (AModuleType InvalidModuleType)) = (InvalidModuleType, None)
   \<and> ParseModuleType (AModuleType 9) = (InvalidModuleType, Some (ErrInvalidModuleType (AUint8 9)))
   \<and> ParseModuleType (APtr (AUint8 9)) = (InvalidModuleType, Some (ErrInvalidModuleType (AUint8 9)))"
  by (simp add: ParseModuleType.simps isValidModuleType_def errUnknownModuleType_def mt_defs)

section \<open>What scoping does to the ancestor\<close>















section \<open>The custom marshaller\<close>



















text \<open>
  Outside the amended claim: a key with a double quote. \<open>MarshalJSON\<close> writes it as it
  is, and the text does not read back as an object.
\<close>

lemma MarshalJSON_key_not_escaped:
  "MarshalJSON exampleLib quoteStore 0
     = Inr (''{'' @ [CHR 0x22] @ ''a'' @ [CHR 0x22] @ ''b'' @ [CHR 0x22] @ '':1}'')
   \<and> decodeObject exampleDecode
        (''{'' @ [CHR 0x22] @ ''a'' @ [CHR 0x22] @ ''b'' @ [CHR 0x22] @ '':1}'') = None"
  by code_simp

section \<open>Text of a value\<close>

text \<open>
  C9 (code bug). A boolean and a floating-point number are formatted with the verb
  \<open>%d\<close>, which \<open>fmt\<close> accepts for integers only: the text is the bad-verb report
  \<open>%!d(bool=true)\<close> or \<open>%!d(float64=...)\<close> and not a rendering of the value. An integer
  is rendered in base 10. In the example configuration \<open>GetStr\<close> of \<open>logging.requests\<close>,
  which is \<open>true\<close>, is the bad-verb report.
\<close>

theorem GetStr_bool_bad_verb:
  "toString L st (VBool True) = ''%!d(bool=true)''
   \<and> toString L st (VBool False) = ''%!d(bool=false)''
   \<and> toString L st (VFloat f) = ''%!d(float64='' @ fmt_float L f @ '')''
   \<and> toString L st (VInt i) = show_int i
   \<and> GetStr exampleLib exampleStore noEnv 0 ''logging.requests'' = Some ''%!d(bool=true)''"
proof -
  have "GetStr exampleLib exampleStore noEnv 0 ''logging.requests'' = Some ''%!d(bool=true)''"
    by code_simp
  then show ?thesis
    by (simp add: toString_def toStringWithOpts_def)
qed

end
